theory Spec2Isabelle
  imports Complex_Main "HOL-Library.AList"
begin

section \<open>Strings\<close>

text \<open>
  A Python \<open>str\<close> is modelled as a \<open>string\<close> with one \<open>char\<close> per code point, for code
  points below 256. \<open>isspace\<close> lists the code points below 256 that \<open>str.isspace\<close>
  accepts; \<open>strip\<close> is \<open>str.strip()\<close> without argument.
\<close>

definition isspace :: "char \<Rightarrow> bool" where
  "isspace c = ((of_char c :: nat) \<in> {9, 10, 11, 12, 13, 28, 29, 30, 31, 32, 133, 160})"

definition strip :: "string \<Rightarrow> string" where
  "strip s = rev (dropWhile isspace (rev (dropWhile isspace s)))"

text \<open>
  \<open>str.upper()\<close> and \<open>str.lower()\<close> on ASCII letters; every other character is left
  as it is (Python also maps letters outside ASCII, which ticker symbols do not use).
\<close>

definition islower :: "char \<Rightarrow> bool" where
  "islower c = (97 \<le> (of_char c :: nat) \<and> (of_char c :: nat) \<le> 122)"

definition upper_char :: "char \<Rightarrow> char" where
  "upper_char c = (if islower c then char_of ((of_char c :: nat) - 32) else c)"

definition lower_char :: "char \<Rightarrow> char" where
  "lower_char c =
     (if 65 \<le> (of_char c :: nat) \<and> (of_char c :: nat) \<le> 90
      then char_of ((of_char c :: nat) + 32) else c)"

definition upper :: "string \<Rightarrow> string" where
  "upper s = map upper_char s"

section \<open>The builtin \<open>float\<close> on strings\<close>

text \<open>
  \<open>float(s)\<close> either returns a number or raises \<open>ValueError\<close>; the model returns
  \<open>None\<close> for the error. The functions of \<open>fetch_data.py\<close> below take the
  conversion as a parameter \<open>flt\<close>, so that what is proved of them for every \<open>flt\<close>
  does not depend on the grammar here. \<open>py_float\<close> follows the grammar of the
  language reference:
  \<^verbatim>\<open>
  digitpart   ::= digit (["_"] digit)*
  number      ::= [digitpart] "." digitpart | digitpart ["."]
  exponent    ::= ("e" | "E") [sign] digitpart
  floatnumber ::= number [exponent]
  floatvalue  ::= [sign] (floatnumber | "inf" | "infinity" | "nan")
  \<close>
  with surrounding whitespace ignored and \<open>inf\<close>, \<open>infinity\<close>, \<open>nan\<close> in any case.
  The value of a finite literal is kept as the exact decimal it denotes: rounding to
  binary64 (and overflow to infinity) is not modelled, since the program only stores
  and compares the numbers it reads with \<open>None\<close>.
\<close>

datatype pyfloat = Finite rat | Inf bool | NaN

definition isdigit :: "char \<Rightarrow> bool" where
  "isdigit c = (48 \<le> (of_char c :: nat) \<and> (of_char c :: nat) \<le> 57)"

definition digit_val :: "char \<Rightarrow> nat" where
  "digit_val c = of_char c - 48"

definition nat_of_digits :: "string \<Rightarrow> nat" where
  "nat_of_digits ds = foldl (\<lambda>a c. 10 * a + digit_val c) 0 ds"

fun digitpart :: "string \<Rightarrow> string option" where
  "digitpart [] = None"
| "digitpart [c] = (if isdigit c then Some [c] else None)"
| "digitpart (c # d # cs) =
     (if \<not> isdigit c then None
      else if d = CHR ''_'' then map_option ((#) c) (digitpart cs)
      else map_option ((#) c) (digitpart (d # cs)))"

definition number :: "string \<Rightarrow> rat option" where
  "number s =
     (let ip = takeWhile (\<lambda>c. c \<noteq> CHR ''.'') s;
          rest = dropWhile (\<lambda>c. c \<noteq> CHR ''.'') s
      in case rest of
           [] \<Rightarrow> map_option (\<lambda>ds. of_nat (nat_of_digits ds)) (digitpart ip)
         | dot # fp \<Rightarrow>
             if fp = [] then map_option (\<lambda>ds. of_nat (nat_of_digits ds)) (digitpart ip)
             else (case digitpart fp of
                     None \<Rightarrow> None
                   | Some fd \<Rightarrow>
                       if ip = [] then Some (of_nat (nat_of_digits fd) / 10 ^ length fd)
                       else (case digitpart ip of
                               None \<Rightarrow> None
                             | Some ds \<Rightarrow>
                                 Some (of_nat (nat_of_digits (ds @ fd)) / 10 ^ length fd))))"

definition floatnumber :: "string \<Rightarrow> rat option" where
  "floatnumber s =
     (let m = takeWhile (\<lambda>c. c \<noteq> CHR ''e'' \<and> c \<noteq> CHR ''E'') s;
          rest = dropWhile (\<lambda>c. c \<noteq> CHR ''e'' \<and> c \<noteq> CHR ''E'') s
      in case rest of
           [] \<Rightarrow> number m
         | e # ex \<Rightarrow>
             (case number m of
                None \<Rightarrow> None
              | Some v \<Rightarrow>
                  (case ex of
                     [] \<Rightarrow> None
                   | c # cs \<Rightarrow>
                       if c = CHR ''-''
                       then map_option (\<lambda>ds. v / 10 ^ nat_of_digits ds) (digitpart cs)
                       else if c = CHR ''+''
                       then map_option (\<lambda>ds. v * 10 ^ nat_of_digits ds) (digitpart cs)
                       else map_option (\<lambda>ds. v * 10 ^ nat_of_digits ds) (digitpart ex))))"

definition py_float :: "string \<Rightarrow> pyfloat option" where
  "py_float s0 =
     (let s = strip s0;
          neg = (case s of [] \<Rightarrow> False | c # cs \<Rightarrow> c = CHR ''-'');
          a = (case s of
                 [] \<Rightarrow> []
               | c # cs \<Rightarrow> if c = CHR ''+'' \<or> c = CHR ''-'' then cs else s);
          l = map lower_char a
      in if l = ''inf'' \<or> l = ''infinity'' then Some (Inf neg)
         else if l = ''nan'' then Some NaN
         else map_option (\<lambda>v. Finite (if neg then - v else v)) (floatnumber a))"

section \<open>The parsed document\<close>

text \<open>
  \<open>BeautifulSoup(resp.text, "html.parser")\<close> builds a tree of tags and strings. A tag
  has a name, its attributes other than \<open>class\<close> (a dictionary, so each key once), the
  list of its classes (the parser splits the \<open>class\<close> attribute at whitespace) and its
  children. The document itself is the tag named \<open>[document]\<close>. Comments and
  the other special strings, which \<open>tag.text\<close> skips, are not part of the model.
\<close>

datatype node =
    Tag string "(string \<times> string) list" "string list" "node list"
  | NavigableString string

text \<open>\<open>tag.descendants\<close>: every node below the tag, in document order.\<close>

fun descendants :: "node \<Rightarrow> node list" where
  "descendants (NavigableString s) = []"
| "descendants (Tag n a c ch) = concat (map (\<lambda>x. x # descendants x) ch)"

text \<open>\<open>tag.text\<close>: the strings below the tag, concatenated.\<close>

fun get_text :: "node \<Rightarrow> string" where
  "get_text (NavigableString s) = s"
| "get_text (Tag n a c ch) = concat (map get_text ch)"

fun has_name :: "string \<Rightarrow> node \<Rightarrow> bool" where
  "has_name nm (Tag n a c ch) = (n = nm)"
| "has_name nm (NavigableString s) = False"

fun has_attr :: "string \<Rightarrow> string \<Rightarrow> node \<Rightarrow> bool" where
  "has_attr k v (Tag n a c ch) = (map_of a k = Some v)"
| "has_attr k v (NavigableString s) = False"

fun join :: "string list \<Rightarrow> string" where
  "join [] = []"
| "join [x] = x"
| "join (x # y # ys) = x @ '' '' @ join (y # ys)"

text \<open>
  A search by \<open>class_\<close> matches a tag when one of its classes is the given string, or
  when its classes joined by single spaces are the given string.
\<close>

fun has_class :: "string \<Rightarrow> node \<Rightarrow> bool" where
  "has_class cl (Tag n a c ch) = (cl \<in> set c \<or> join c = cl)"
| "has_class cl (NavigableString s) = False"

text \<open>
  \<open>find_all\<close> filters the descendants; \<open>find\<close> returns the first match or \<open>None\<close>.
  A tag is truthy whatever its contents, so \<open>if tag:\<close> in the source only tests
  for \<open>None\<close>.
\<close>

definition find_all_by :: "(node \<Rightarrow> bool) \<Rightarrow> node \<Rightarrow> node list" where
  "find_all_by p t = filter p (descendants t)"

definition find_by :: "(node \<Rightarrow> bool) \<Rightarrow> node \<Rightarrow> node option" where
  "find_by p t = (case find_all_by p t of [] \<Rightarrow> None | x # xs \<Rightarrow> Some x)"

definition find_all_tag :: "string \<Rightarrow> node \<Rightarrow> node list" where
  "find_all_tag nm t = find_all_by (has_name nm) t"

definition find_tag :: "string \<Rightarrow> node \<Rightarrow> node option" where
  "find_tag nm t = find_by (has_name nm) t"

definition find_testid :: "string \<Rightarrow> node \<Rightarrow> node option" where
  "find_testid testid t =
     find_by (\<lambda>x. has_name ''section'' x \<and> has_attr ''data-testid'' testid x) t"

definition find_class :: "string \<Rightarrow> string \<Rightarrow> node \<Rightarrow> node option" where
  "find_class nm cl t = find_by (\<lambda>x. has_name nm x \<and> has_class cl x) t"

section \<open>\<open>fetch_data.py\<close>\<close>

datatype error = ValueError | RequestException

text \<open>
  The response of \<open>requests.get\<close>: its status code and the document parsed from its
  text. \<open>requests.get\<close> itself is a parameter \<open>get\<close> of the model, from the URL to
  either a response or the exception that a failed request raises.
\<close>

record response =
  status_code :: int
  document :: node

text \<open>
  The dictionary that \<open>scrape_esg_scores\<close> returns; \<open>total_score\<close> is the key
  \<open>"total"\<close>. \<open>involvement_areas\<close> is a Python \<open>dict\<close>, kept as an association
  list in insertion order and written with \<open>AList.update\<close>, which replaces the value
  of a key that is present and appends a new key at the end.
\<close>

record 'f esg =
  total_score :: "'f option"
  total_level :: "string option"
  environmental :: "'f option"
  social :: "'f option"
  governance :: "'f option"
  involvement_areas :: "(string \<times> string) list"
  controversy_score :: "'f option"
  controversy_category_average :: "'f option"

definition url :: "string \<Rightarrow> string" where
  "url ticker = ''https://finance.yahoo.com/quote/'' @ ticker @ ''/sustainability/''"

text \<open>
  \<open>get_score\<close> (lines 16 to 24). The call of \<open>float\<close> is not guarded: when the text
  of the \<open>h4\<close> does not parse, \<open>ValueError\<close> leaves \<open>get_score\<close>.
\<close>

definition get_score ::
  "(string \<Rightarrow> 'f option) \<Rightarrow> node \<Rightarrow> string \<Rightarrow> error + ('f option \<times> string option)" where
  "get_score flt soup testid =
     (case find_testid testid soup of
        None \<Rightarrow> Inr (None, None)
      | Some section \<Rightarrow>
          (let score_tag = find_tag ''h4'' section;
               level_tag = find_class ''span'' ''perf yf-y3c2sq'' section
           in case score_tag of
                None \<Rightarrow> Inr (None, map_option (\<lambda>t. strip (get_text t)) level_tag)
              | Some st \<Rightarrow>
                  (case flt (strip (get_text st)) of
                     None \<Rightarrow> Inl ValueError
                   | Some v \<Rightarrow> Inr (Some v, map_option (\<lambda>t. strip (get_text t)) level_tag))))"

text \<open>
  The loop over \<open>rows[1:]\<close> (lines 38 to 43), on the dictionary built so far.
\<close>

fun involvement_rows ::
  "node list \<Rightarrow> (string \<times> string) list \<Rightarrow> (string \<times> string) list" where
  "involvement_rows [] involvement_data = involvement_data"
| "involvement_rows (row # rows) involvement_data =
     (let cols = find_all_tag ''td'' row
      in if length cols = 2
         then involvement_rows rows
                (AList.update (strip (get_text (cols ! 0))) (strip (get_text (cols ! 1)))
                   involvement_data)
         else involvement_rows rows involvement_data)"

text \<open>The rows of the table: \<open>rows[1:]\<close> is \<open>drop 1\<close>, also on an empty list.\<close>

definition involvement_table :: "node \<Rightarrow> (string \<times> string) list" where
  "involvement_table table = involvement_rows (drop 1 (find_all_tag ''tr'' table)) []"

text \<open>Lines 32 to 43.\<close>

definition involvement :: "node \<Rightarrow> (string \<times> string) list" where
  "involvement soup =
     (case find_testid ''involvement-areas'' soup of
        None \<Rightarrow> []
      | Some involvement_section \<Rightarrow>
          (case find_tag ''table'' involvement_section of
             None \<Rightarrow> []
           | Some table \<Rightarrow> involvement_table table))"

text \<open>
  What one row of the table contributes, in the words of the specification: a row
  with two \<open>td\<close> cells gives the pair (product name, involvement descriptor) of
  their stripped texts; any other row gives nothing.
\<close>

definition row_entry :: "node \<Rightarrow> (string \<times> string) option" where
  "row_entry row =
     (let cols = find_all_tag ''td'' row
      in if length cols = 2
         then Some (strip (get_text (cols ! 0)), strip (get_text (cols ! 1)))
         else None)"

text \<open>The pairs of the rows after the first one, in the order of the rows.\<close>

definition data_entries :: "node \<Rightarrow> (string \<times> string) list" where
  "data_entries table = List.map_filter row_entry (drop 1 (find_all_tag ''tr'' table))"

text \<open>
  Lines 51 to 58, inside the controversy section. The bare \<open>except: pass\<close> leaves
  \<open>controversy_score\<close> at \<open>None\<close> when \<open>float\<close> raises.
\<close>

definition controversy_value :: "(string \<Rightarrow> 'f option) \<Rightarrow> node \<Rightarrow> 'f option" where
  "controversy_value flt controversy_section =
     (case find_class ''div'' ''val yf-ye6fz0'' controversy_section of
        None \<Rightarrow> None
      | Some val_div \<Rightarrow>
          (let spans = find_all_tag ''span'' val_div
           in if spans \<noteq> [] \<and> length spans \<ge> 2
              then flt (strip (get_text (spans ! 0)))
              else None))"

text \<open>Lines 61 to 68, inside the controversy section.\<close>

definition controversy_peer :: "(string \<Rightarrow> 'f option) \<Rightarrow> node \<Rightarrow> 'f option" where
  "controversy_peer flt controversy_section =
     (case find_class ''div'' ''tooltip al-top yf-15g2hux'' controversy_section of
        None \<Rightarrow> None
      | Some tooltip_div \<Rightarrow>
          (case find_class ''span'' ''peer-score yf-ye6fz0'' tooltip_div of
             None \<Rightarrow> None
           | Some peer_span \<Rightarrow> flt (strip (get_text peer_span))))"

text \<open>Lines 46 to 68: the pair \<open>(controversy_score, category_average)\<close>.\<close>

definition controversy :: "(string \<Rightarrow> 'f option) \<Rightarrow> node \<Rightarrow> 'f option \<times> 'f option" where
  "controversy flt soup =
     (case find_testid ''esg-controversy'' soup of
        None \<Rightarrow> (None, None)
      | Some controversy_section \<Rightarrow>
          (controversy_value flt controversy_section,
           controversy_peer flt controversy_section))"

text \<open>
  \<open>scrape_esg_scores\<close>: \<open>Inl\<close> is an exception leaving the call, \<open>Inr None\<close> the
  returned \<open>None\<close>, \<open>Inr (Some r)\<close> the returned dictionary.
\<close>

definition scrape_esg_scores ::
  "(string \<Rightarrow> 'f option) \<Rightarrow> (string \<Rightarrow> error + response) \<Rightarrow> string
     \<Rightarrow> error + 'f esg option" where
  "scrape_esg_scores flt get ticker =
     (case get (url ticker) of
        Inl e \<Rightarrow> Inl e
      | Inr resp \<Rightarrow>
          if status_code resp \<noteq> 200 then Inr None
          else
            (let soup = document resp
             in case get_score flt soup ''TOTAL_ESG_SCORE'' of
                  Inl e \<Rightarrow> Inl e
                | Inr (total_sc, total_lv) \<Rightarrow>
             (case get_score flt soup ''ENVIRONMENTAL_SCORE'' of
                  Inl e \<Rightarrow> Inl e
                | Inr (env_score, env_level) \<Rightarrow>
             (case get_score flt soup ''SOCIAL_SCORE'' of
                  Inl e \<Rightarrow> Inl e
                | Inr (soc_score, soc_level) \<Rightarrow>
             (case get_score flt soup ''GOVERNANCE_SCORE'' of
                  Inl e \<Rightarrow> Inl e
                | Inr (gov_score, gov_level) \<Rightarrow>
                    Inr (Some \<lparr>total_score = total_sc,
                               total_level = total_lv,
                               environmental = env_score,
                               social = soc_score,
                               governance = gov_score,
                               involvement_areas = involvement soup,
                               controversy_score = fst (controversy flt soup),
                               controversy_category_average = snd (controversy flt soup)\<rparr>))))))"

section \<open>\<open>app.py\<close>\<close>

text \<open>
  One row of the table that \<open>fetch_data\<close> builds (\<open>pd.DataFrame(results)\<close> has
  one row per appended dictionary, in the order of the appends).
\<close>

record 'f row =
  Ticker :: string
  Total_ESG_Risk_Score :: "'f option"
  Total_ESG_Risk_Level :: "string option"
  Environmental_Risk :: "'f option"
  Social_Risk :: "'f option"
  Governance_Risk :: "'f option"
  Controversy_Score :: "'f option"
  Controversy_Category_Average :: "'f option"
  Involvement_Areas :: "(string \<times> string) list"

definition make_row :: "string \<Rightarrow> 'f esg \<Rightarrow> 'f row" where
  "make_row t data =
     \<lparr>Ticker = t,
      Total_ESG_Risk_Score = total_score data,
      Total_ESG_Risk_Level = total_level data,
      Environmental_Risk = environmental data,
      Social_Risk = social data,
      Governance_Risk = governance data,
      Controversy_Score = controversy_score data,
      Controversy_Category_Average = controversy_category_average data,
      Involvement_Areas = involvement_areas data\<rparr>"

text \<open>
  The loop of \<open>fetch_data\<close> (lines 26 to 40) with its two accumulators. The last
  argument records the effect of the loop: the tickers for which
  \<open>scrape_esg_scores\<close> was called, in order. An exception of a call leaves the loop.
  The dictionary that \<open>scrape_esg_scores\<close> returns has eight keys and is truthy, so
  \<open>if data and ...\<close> only excludes \<open>None\<close>.
\<close>

fun fetch_loop ::
  "(string \<Rightarrow> 'f option) \<Rightarrow> (string \<Rightarrow> error + response) \<Rightarrow> string list
     \<Rightarrow> 'f row list \<Rightarrow> nat \<Rightarrow> string list
     \<Rightarrow> (error + 'f row list \<times> nat) \<times> string list" where
  "fetch_loop flt get [] results valid_count calls = (Inr (results, valid_count), calls)"
| "fetch_loop flt get (t # ts) results valid_count calls =
     (case scrape_esg_scores flt get t of
        Inl e \<Rightarrow> (Inl e, calls @ [t])
      | Inr None \<Rightarrow> fetch_loop flt get ts results valid_count (calls @ [t])
      | Inr (Some data) \<Rightarrow>
          if total_score data \<noteq> None
          then fetch_loop flt get ts (results @ [make_row t data]) (valid_count + 1)
                 (calls @ [t])
          else fetch_loop flt get ts results valid_count (calls @ [t]))"

definition fetch_data ::
  "(string \<Rightarrow> 'f option) \<Rightarrow> (string \<Rightarrow> error + response) \<Rightarrow> string list
     \<Rightarrow> (error + 'f row list \<times> nat) \<times> string list" where
  "fetch_data flt get tickers = fetch_loop flt get tickers [] 0 []"

text \<open>
  The fetch results that the specification counts: not \<open>None\<close>, and with a total
  score that is not \<open>None\<close>.
\<close>

definition has_total :: "'f esg option \<Rightarrow> bool" where
  "has_total data = (case data of None \<Rightarrow> False | Some d \<Rightarrow> total_score d \<noteq> None)"

text \<open>
  Modelled from the spec: the memoization that the decorator \<open>@st.cache_data\<close>
  (line 19) provides; the decorator is code of the Streamlit library and is not
  under \<open>src/\<close>. The specification says that results are memoized for the same
  ticker list, the memoization key being the exact input sequence of tickers: a call
  with a list that has an entry returns the stored result and does not run the body;
  any other call runs the body and, when the body returns a result, stores it under
  the list. A call that raises has no result, and nothing is stored. The session
  state is the cache and the list of tickers scraped so far.
\<close>

record 'f session =
  cache :: "(string list \<times> ('f row list \<times> nat)) list"
  scraped :: "string list"

definition cached_fetch_data ::
  "(string \<Rightarrow> 'f option) \<Rightarrow> (string \<Rightarrow> error + response) \<Rightarrow> string list
     \<Rightarrow> 'f session \<Rightarrow> (error + 'f row list \<times> nat) \<times> 'f session" where
  "cached_fetch_data flt get tickers st =
     (case map_of (cache st) tickers of
        Some v \<Rightarrow> (Inr v, st)
      | None \<Rightarrow>
          (case fetch_data flt get tickers of
             (Inl e, calls) \<Rightarrow> (Inl e, st\<lparr>scraped := scraped st @ calls\<rparr>)
           | (Inr v, calls) \<Rightarrow>
               (Inr v, \<lparr>cache = (tickers, v) # cache st,
                        scraped = scraped st @ calls\<rparr>)))"

text \<open>
  The sidebar input (lines 57 to 74). \<open>pd.read_csv\<close> either raises, which the
  \<open>except\<close> of line 66 reports, or gives a frame: its columns by name, a cell being
  \<open>None\<close> when it is missing (what \<open>dropna\<close> removes) and otherwise the string
  \<open>astype(str)\<close> makes of it. \<open>unique\<close> keeps the first occurrence of each value, in
  order.
\<close>

datatype csv = ReadError | DataFrame "(string \<times> string option list) list"

fun dropna :: "'a option list \<Rightarrow> 'a list" where
  "dropna [] = []"
| "dropna (None # xs) = dropna xs"
| "dropna (Some x # xs) = x # dropna xs"

definition unique :: "'a list \<Rightarrow> 'a list" where
  "unique xs = rev (remdups (rev xs))"

definition tickers :: "csv option \<Rightarrow> string \<Rightarrow> string list" where
  "tickers uploaded_file single_ticker =
     (let from_file =
            (case uploaded_file of
               None \<Rightarrow> []
             | Some ReadError \<Rightarrow> []
             | Some (DataFrame columns) \<Rightarrow>
                 (case map_of columns ''Ticker'' of
                    None \<Rightarrow> []
                  | Some col \<Rightarrow> unique (map upper (dropna col))))
      in if single_ticker \<noteq> [] then [upper single_ticker] else from_file)"

text \<open>
  Lines 72 to 78: with no ticker the script stops; otherwise the list is the
  argument of \<open>fetch_data\<close>.
\<close>

definition fetch_argument :: "csv option \<Rightarrow> string \<Rightarrow> string list option" where
  "fetch_argument uploaded_file single_ticker =
     (let ts = tickers uploaded_file single_ticker
      in if ts = [] then None else Some ts)"

section \<open>Example inputs\<close>

text \<open>
  Worlds for \<open>requests.get\<close>: \<open>offline\<close> fails every request, \<open>serve code d\<close>
  answers every request with the status \<open>code\<close> and the document \<open>d\<close>. Documents
  are built with \<open>doc\<close> (the root), \<open>sec\<close> (a \<open>section\<close> with a \<open>data-testid\<close>),
  \<open>elem\<close> (a tag with classes only) and \<open>NavigableString\<close>.
\<close>

definition offline :: "string \<Rightarrow> error + response" where
  "offline u = Inl RequestException"

definition serve :: "int \<Rightarrow> node \<Rightarrow> string \<Rightarrow> error + response" where
  "serve code d u = Inr \<lparr>status_code = code, document = d\<rparr>"

definition doc :: "node list \<Rightarrow> node" where
  "doc ch = Tag ''[document]'' [] [] ch"

definition sec :: "string \<Rightarrow> node list \<Rightarrow> node" where
  "sec testid ch = Tag ''section'' [(''data-testid'', testid)] [] ch"

definition elem :: "string \<Rightarrow> string list \<Rightarrow> node list \<Rightarrow> node" where
  "elem nm cls ch = Tag nm [] cls ch"

text \<open>
  A page with a controversy section: a value element with two spans of the same text
  and a tooltip with a peer-score span.
\<close>

definition controversy_page :: "string \<Rightarrow> string \<Rightarrow> node" where
  "controversy_page score peer =
     doc [sec ''esg-controversy''
       [elem ''div'' [''val'', ''yf-ye6fz0'']
          [elem ''span'' [] [NavigableString score], elem ''span'' [] [NavigableString score]],
        elem ''div'' [''tooltip'', ''al-top'', ''yf-15g2hux'']
          [elem ''span'' [''peer-score'', ''yf-ye6fz0''] [NavigableString peer]]]]"

text \<open>A page whose value element has a single span.\<close>

definition one_span_page :: "string \<Rightarrow> node" where
  "one_span_page score =
     doc [sec ''esg-controversy''
       [elem ''div'' [''val'', ''yf-ye6fz0''] [elem ''span'' [] [NavigableString score]]]]"

text \<open>Rows of an involvement table: the header, a row of two cells, a row of one.\<close>

definition header_row :: node where
  "header_row = elem ''tr'' [] [elem ''th'' [] [NavigableString ''Product''],
                                elem ''th'' [] [NavigableString ''Involvement'']]"

definition data_row :: "string \<Rightarrow> string \<Rightarrow> node" where
  "data_row p v = elem ''tr'' [] [elem ''td'' [] [NavigableString p],
                                  elem ''td'' [] [NavigableString v]]"

definition short_row :: "string \<Rightarrow> node" where
  "short_row p = elem ''tr'' [] [elem ''td'' [] [NavigableString p]]"

definition table_of :: "node list \<Rightarrow> node" where
  "table_of rows = elem ''table'' [] rows"

text \<open>
  A world with three kinds of ticker: \<open>AAPL\<close> has a page with a total score of 14.2
  and the level \<open>Low\<close>, \<open>NOSCORE\<close> has a page without any section, the request
  for \<open>DOWN\<close> fails, every other ticker gets the status 404. \<open>aapl_record\<close> and \<open>empty_record\<close> are the
  dictionaries extracted from the two pages.
\<close>

definition aapl_page :: node where
  "aapl_page =
     doc [sec ''TOTAL_ESG_SCORE''
            [elem ''h4'' [] [NavigableString ''14.2''],
             elem ''span'' [''perf'', ''yf-y3c2sq''] [NavigableString ''Low'']]]"

definition market :: "string \<Rightarrow> error + response" where
  "market u =
     (if u = url ''AAPL'' then Inr \<lparr>status_code = 200, document = aapl_page\<rparr>
      else if u = url ''NOSCORE'' then Inr \<lparr>status_code = 200, document = doc []\<rparr>
      else if u = url ''DOWN'' then Inl RequestException
      else Inr \<lparr>status_code = 404, document = doc []\<rparr>)"

definition aapl_record :: "pyfloat esg" where
  "aapl_record = \<lparr>total_score = Some (Finite (142 / 10)), total_level = Some ''Low'',
     environmental = None, social = None, governance = None, involvement_areas = [],
     controversy_score = None, controversy_category_average = None\<rparr>"

definition empty_record :: "pyfloat esg" where
  "empty_record = \<lparr>total_score = None, total_level = None,
     environmental = None, social = None, governance = None, involvement_areas = [],
     controversy_score = None, controversy_category_average = None\<rparr>"

section \<open>Evaluation\<close>

lemmas find_defs =
  find_testid_def find_tag_def find_class_def find_all_tag_def find_by_def find_all_by_def

lemmas float_defs =
  py_float_def strip_def isspace_def floatnumber_def number_def nat_of_digits_def
  digit_val_def isdigit_def lower_char_def

lemmas input_defs = offline_def serve_def doc_def sec_def elem_def

lemma py_float_not_a_number: "py_float ''N/A'' = None"
  by (simp add: float_defs)

lemma py_float_dashes: "py_float ''--'' = None"
  by (simp add: float_defs)

lemma py_float_3: "py_float ''3'' = Some (Finite 3)"
  by (simp add: float_defs)

lemma py_float_2_1: "py_float ''2.1'' = Some (Finite (21 / 10))"
  by (simp add: float_defs)

lemma py_float_14_2: "py_float ''14.2'' = Some (Finite (142 / 10))"
  by (simp add: float_defs)

lemma strip_plain [simp]:
  "strip ''N/A'' = ''N/A''" "strip ''--'' = ''--''" "strip ''3'' = ''3''"
  "strip ''2.1'' = ''2.1''" "strip ''14.2'' = ''14.2''" "strip ''Low'' = ''Low''"
  by (simp_all add: strip_def isspace_def)

lemmas table_defs = header_row_def data_row_def short_row_def table_of_def elem_def

lemma strip_words [simp]:
  "strip ''Tobacco'' = ''Tobacco''" "strip ''Gambling'' = ''Gambling''"
  "strip ''Yes'' = ''Yes''" "strip ''No'' = ''No''"
  by (simp_all add: strip_def isspace_def)

lemma scrape_market:
  "scrape_esg_scores py_float market ''AAPL'' = Inr (Some aapl_record)"
  "scrape_esg_scores py_float market ''NOSCORE'' = Inr (Some empty_record)"
  "scrape_esg_scores py_float market ''ZZZZINVALID'' = Inr None"
  "scrape_esg_scores py_float market ''DOWN'' = Inl RequestException"
  by (simp_all add: scrape_esg_scores_def market_def url_def aapl_page_def aapl_record_def
      empty_record_def get_score_def involvement_def controversy_def find_defs input_defs
      Let_def py_float_14_2)

section \<open>What a returned record holds\<close>

lemma scrape_record:
  assumes "scrape_esg_scores flt get t = Inr (Some r)"
  shows "\<exists>resp. get (url t) = Inr resp \<and> status_code resp = 200
           \<and> controversy_score r = fst (controversy flt (document resp))
           \<and> controversy_category_average r = snd (controversy flt (document resp))
           \<and> involvement_areas r = involvement (document resp)"
  using assms
  by (auto simp: scrape_esg_scores_def Let_def split: sum.splits if_splits prod.splits)

lemma scrape_None_iff:
  "scrape_esg_scores flt get t = Inr None
     \<longleftrightarrow> (\<exists>resp. get (url t) = Inr resp \<and> status_code resp \<noteq> 200)"
  by (auto simp: scrape_esg_scores_def Let_def split: sum.splits if_splits prod.splits)

section \<open>The HTTP status check and failed requests\<close>

text \<open>
  Claim C3, as the code has it: when the GET returns a response whose status code is
  not 200, which covers every non-success status, \<open>scrape_esg_scores\<close> returns
  \<open>None\<close> and raises nothing; when the GET itself fails, the exception it raises
  leaves \<open>scrape_esg_scores\<close>, since no handler surrounds the request.
\<close>

theorem scrape_status_check:
  "(\<forall>resp. get (url ticker) = Inr resp \<longrightarrow> status_code resp \<noteq> 200
      \<longrightarrow> scrape_esg_scores flt get ticker = Inr None)
   \<and> (\<forall>e. get (url ticker) = Inl e \<longrightarrow> scrape_esg_scores flt get ticker = Inl e)"
  by (simp add: scrape_esg_scores_def)

theorem scrape_status_check_witness:
  "serve 404 (doc []) (url ''ZZZZINVALID'') = Inr \<lparr>status_code = 404, document = doc []\<rparr>
   \<and> status_code \<lparr>status_code = 404, document = doc []\<rparr> \<noteq> 200
   \<and> scrape_esg_scores py_float (serve 404 (doc [])) ''ZZZZINVALID'' = Inr None
   \<and> offline (url ''AAPL'') = Inl RequestException
   \<and> scrape_esg_scores py_float offline ''AAPL'' = Inl RequestException"
  using scrape_status_check [of "serve 404 (doc [])" "''ZZZZINVALID''" py_float]
    scrape_status_check [of offline "''AAPL''" py_float]
  by (simp add: serve_def offline_def)

text \<open>
  Claim C3 as stated fails for a network failure: the call does not return \<open>None\<close>,
  the exception of the request propagates.
\<close>

theorem scrape_network_failure_raises:
  "scrape_esg_scores py_float offline ''AAPL'' \<noteq> Inr None"
  by (simp add: scrape_esg_scores_def offline_def)

section \<open>Score sections\<close>

lemma get_score_absent_section:
  "find_testid testid soup = None \<Longrightarrow> get_score flt soup testid = Inr (None, None)"
  by (simp add: get_score_def)

lemma get_score_missing_h4:
  "find_testid testid soup = Some s \<Longrightarrow> find_tag ''h4'' s = None
     \<Longrightarrow> \<exists>level. get_score flt soup testid = Inr (None, level)"
  by (simp add: get_score_def)

lemma get_score_unparseable_h4:
  "find_testid testid soup = Some s \<Longrightarrow> find_tag ''h4'' s = Some h
     \<Longrightarrow> flt (strip (get_text h)) = None \<Longrightarrow> get_score flt soup testid = Inl ValueError"
  by (simp add: get_score_def)

text \<open>
  Claim C2 at a page with status 200 whose total-score section is
  \<^verbatim>\<open><section data-testid="TOTAL_ESG_SCORE"><h4>N/A</h4></section>\<close>:
  the text of the \<open>h4\<close> does not parse, \<open>float\<close> raises \<open>ValueError\<close> inside
  \<open>get_score\<close>, and the exception ends the whole call instead of leaving the field
  \<open>None\<close>. (A missing section and a missing \<open>h4\<close> do give \<open>None\<close>, by the
  three lemmas above.)
\<close>

theorem scrape_unparseable_total_raises:
  "scrape_esg_scores py_float
     (serve 200 (doc [sec ''TOTAL_ESG_SCORE'' [elem ''h4'' [] [NavigableString ''N/A'']]]))
     ''AAPL''
   = Inl ValueError"
  by (simp add: scrape_esg_scores_def get_score_def find_defs input_defs
      py_float_not_a_number)

text \<open>
  Claim C10 at a page with status 200 whose governance section is
  \<^verbatim>\<open><section data-testid="GOVERNANCE_SCORE"><h4>--</h4></section>\<close>:
  the response is successful, yet the call returns no record; \<open>ValueError\<close> from the
  unguarded \<open>float\<close> of \<open>get_score\<close> leaves it. (By \<open>scrape_None_iff\<close> the returned
  \<open>None\<close> does come from the status check only, and \<open>involvement_areas\<close> of a
  returned record is always a dictionary.)
\<close>

theorem scrape_successful_response_raises:
  "scrape_esg_scores py_float
     (serve 200 (doc [sec ''GOVERNANCE_SCORE'' [elem ''h4'' [] [NavigableString ''--'']]]))
     ''MSFT''
   = Inl ValueError"
  by (simp add: scrape_esg_scores_def get_score_def find_defs input_defs py_float_dashes)

section \<open>The involvement-areas table\<close>

lemma involvement_rows_append:
  "involvement_rows (xs @ ys) d = involvement_rows ys (involvement_rows xs d)"
  by (induction xs arbitrary: d) (simp_all add: Let_def)

lemma involvement_rows_map_of:
  "map_of (involvement_rows rows d) = map_of (rev (List.map_filter row_entry rows) @ d)"
proof (induction rows arbitrary: d)
  case Nil
  then show ?case by (simp add: List.map_filter_simps)
next
  case (Cons row rows)
  show ?case
  proof (cases "row_entry row")
    case None
    then have "length (find_all_tag ''td'' row) \<noteq> 2"
      by (auto simp: row_entry_def Let_def split: if_splits)
    with None Cons show ?thesis
      by (simp add: List.map_filter_simps Let_def)
  next
    case (Some kv)
    then have two: "length (find_all_tag ''td'' row) = 2"
      and kv: "kv = (strip (get_text (find_all_tag ''td'' row ! 0)),
                     strip (get_text (find_all_tag ''td'' row ! 1)))"
      by (auto simp: row_entry_def Let_def split: if_splits)
    have "map_of (involvement_rows (row # rows) d)
            = map_of (rev (List.map_filter row_entry rows) @ AList.update (fst kv) (snd kv) d)"
      using two kv Cons by (simp add: Let_def)
    also have "\<dots> = map_of (rev (List.map_filter row_entry rows) @ kv # d)"
      by (rule ext) (simp add: map_of_append update_conv' map_add_def split: option.splits)
    finally show ?thesis
      using Some by (simp add: List.map_filter_simps)
  qed
qed

lemma map_of_rev_last:
  "map_of (rev es) k = Some v \<longleftrightarrow>
     (\<exists>i < length es. es ! i = (k, v) \<and> (\<forall>j. i < j \<and> j < length es \<longrightarrow> fst (es ! j) \<noteq> k))"
proof (induction es rule: rev_induct)
  case Nil
  then show ?case by simp
next
  case (snoc x xs)
  show ?case
  proof (cases "fst x = k")
    case True
    have "(\<exists>i < length (xs @ [x]). (xs @ [x]) ! i = (k, v)
            \<and> (\<forall>j. i < j \<and> j < length (xs @ [x]) \<longrightarrow> fst ((xs @ [x]) ! j) \<noteq> k))
          \<longleftrightarrow> x = (k, v)"
    proof
      assume "\<exists>i < length (xs @ [x]). (xs @ [x]) ! i = (k, v)
            \<and> (\<forall>j. i < j \<and> j < length (xs @ [x]) \<longrightarrow> fst ((xs @ [x]) ! j) \<noteq> k)"
      then obtain i where i: "i < length (xs @ [x])" "(xs @ [x]) ! i = (k, v)"
        and later: "\<forall>j. i < j \<and> j < length (xs @ [x]) \<longrightarrow> fst ((xs @ [x]) ! j) \<noteq> k"
        by blast
      have "i = length xs"
      proof (rule ccontr)
        assume "i \<noteq> length xs"
        with i(1) have "i < length xs" by simp
        with later have "fst ((xs @ [x]) ! length xs) \<noteq> k"
          by (auto dest: spec [of _ "length xs"])
        with True show False by simp
      qed
      with i(2) show "x = (k, v)" by simp
    next
      assume "x = (k, v)"
      then have "(xs @ [x]) ! length xs = (k, v)" by simp
      then show "\<exists>i < length (xs @ [x]). (xs @ [x]) ! i = (k, v)
            \<and> (\<forall>j. i < j \<and> j < length (xs @ [x]) \<longrightarrow> fst ((xs @ [x]) ! j) \<noteq> k)"
        by (intro exI [of _ "length xs"]) auto
    qed
    with True show ?thesis by (cases x) auto
  next
    case False
    have "(\<exists>i < length (xs @ [x]). (xs @ [x]) ! i = (k, v)
            \<and> (\<forall>j. i < j \<and> j < length (xs @ [x]) \<longrightarrow> fst ((xs @ [x]) ! j) \<noteq> k))
          \<longleftrightarrow> (\<exists>i < length xs. xs ! i = (k, v)
            \<and> (\<forall>j. i < j \<and> j < length xs \<longrightarrow> fst (xs ! j) \<noteq> k))"
      (is "?L \<longleftrightarrow> ?R")
    proof
      assume ?L
      then obtain i where i: "i < length (xs @ [x])" "(xs @ [x]) ! i = (k, v)"
        and later: "\<forall>j. i < j \<and> j < length (xs @ [x]) \<longrightarrow> fst ((xs @ [x]) ! j) \<noteq> k"
        by blast
      from i False have lt: "i < length xs"
        by (cases "i = length xs") auto
      with i(2) have "xs ! i = (k, v)" by (simp add: nth_append)
      moreover have "fst (xs ! j) \<noteq> k" if "i < j" "j < length xs" for j
        using later that by (auto simp: nth_append dest: spec [of _ j])
      ultimately show ?R using lt by blast
    next
      assume ?R
      then obtain i where i: "i < length xs" "xs ! i = (k, v)"
        and later: "\<forall>j. i < j \<and> j < length xs \<longrightarrow> fst (xs ! j) \<noteq> k"
        by blast
      have "fst ((xs @ [x]) ! j) \<noteq> k" if "i < j" "j < length (xs @ [x])" for j
        using later that False by (cases "j = length xs") (auto simp: nth_append)
      with i show ?L
        by (intro exI [of _ i]) (simp add: nth_append)
    qed
    with False snoc.IH show ?thesis by simp
  qed
qed

text \<open>
  Claim C4. The dictionary built from a table is read off the rows after the first
  one only, each giving its pair (\<open>data_entries\<close>): a product is mapped to a
  descriptor exactly when some data row gives that pair and no later data row gives
  a pair for the same product, so that the last row wins. A table with no row but the
  header (or with no row at all) gives the empty dictionary; the function is total,
  so no table raises.
\<close>

theorem involvement_table_last_row_wins:
  "(map_of (involvement_table table) product = Some descriptor \<longleftrightarrow>
      (\<exists>i < length (data_entries table).
          data_entries table ! i = (product, descriptor)
          \<and> (\<forall>j. i < j \<and> j < length (data_entries table)
                \<longrightarrow> fst (data_entries table ! j) \<noteq> product)))
   \<and> (length (find_all_tag ''tr'' table) \<le> 1 \<longrightarrow> involvement_table table = [])"
proof -
  have "map_of (involvement_table table) = map_of (rev (data_entries table))"
    by (simp add: involvement_table_def involvement_rows_map_of data_entries_def)
  then show ?thesis
    by (simp add: map_of_rev_last involvement_table_def)
qed

theorem involvement_table_last_row_wins_witness:
  "length (find_all_tag ''tr'' (table_of [header_row])) \<le> 1
   \<and> involvement_table (table_of [header_row]) = []
   \<and> data_entries
        (table_of [header_row, data_row ''Tobacco'' ''No'', data_row ''Tobacco'' ''Yes''])
      = [(''Tobacco'', ''No''), (''Tobacco'', ''Yes'')]
   \<and> map_of (involvement_table
        (table_of [header_row, data_row ''Tobacco'' ''No'', data_row ''Tobacco'' ''Yes'']))
        ''Tobacco'' = Some ''Yes''"
proof -
  let ?t = "table_of [header_row, data_row ''Tobacco'' ''No'', data_row ''Tobacco'' ''Yes'']"
  have rows1: "find_all_tag ''tr'' (table_of [header_row]) = [header_row]"
    by (simp add: find_defs table_defs)
  have rows2: "find_all_tag ''tr'' ?t
      = [header_row, data_row ''Tobacco'' ''No'', data_row ''Tobacco'' ''Yes'']"
    by (simp add: find_defs table_defs)
  have e: "row_entry (data_row p v) = Some (strip p, strip v)" for p v
    by (simp add: row_entry_def find_defs table_defs)
  have entries: "data_entries ?t = [(''Tobacco'', ''No''), (''Tobacco'', ''Yes'')]"
    by (simp add: data_entries_def rows2 e List.map_filter_simps)
  have last: "\<exists>i < length (data_entries ?t).
      data_entries ?t ! i = (''Tobacco'', ''Yes'')
      \<and> (\<forall>j. i < j \<and> j < length (data_entries ?t) \<longrightarrow> fst (data_entries ?t ! j) \<noteq> ''Tobacco'')"
    unfolding entries by (intro exI [of _ 1]) auto
  show ?thesis
    using involvement_table_last_row_wins [of "table_of [header_row]"]
      involvement_table_last_row_wins [of ?t "''Tobacco''" "''Yes''"] last
    by (simp add: rows1 entries)
qed

text \<open>
  Claim C5. A data row with a single \<open>td\<close> cell is skipped: the dictionary is the one
  built from the other rows, whatever comes before and after it, and nothing raises.
\<close>

theorem involvement_one_cell_row_skipped:
  assumes "length (find_all_tag ''td'' row) = 1"
  shows "involvement_rows (pre @ row # post) d = involvement_rows (pre @ post) d
     \<and> (find_all_tag ''tr'' table = header # pre @ row # post
          \<longrightarrow> involvement_table table = involvement_rows (pre @ post) [])"
  using assms by (simp add: involvement_rows_append involvement_table_def Let_def)

theorem involvement_one_cell_row_skipped_witness:
  "length (find_all_tag ''td'' (short_row ''Alcohol'')) = 1
   \<and> involvement_table (table_of [header_row, data_row ''Tobacco'' ''Yes'',
        short_row ''Alcohol'', data_row ''Gambling'' ''No''])
      = [(''Tobacco'', ''Yes''), (''Gambling'', ''No'')]"
proof -
  have one: "length (find_all_tag ''td'' (short_row ''Alcohol'')) = 1"
    by (simp add: find_defs table_defs)
  have rows: "find_all_tag ''tr'' (table_of [header_row, data_row ''Tobacco'' ''Yes'',
        short_row ''Alcohol'', data_row ''Gambling'' ''No''])
      = header_row # [data_row ''Tobacco'' ''Yes''] @ short_row ''Alcohol''
          # [data_row ''Gambling'' ''No'']"
    by (simp add: find_defs table_defs)
  have cols: "find_all_tag ''td'' (data_row p v)
      = [elem ''td'' [] [NavigableString p], elem ''td'' [] [NavigableString v]]" for p v
    by (simp add: find_defs table_defs)
  have t: "get_text (elem ''td'' [] [NavigableString a]) = a" for a
    by (simp add: elem_def)
  show ?thesis
    using involvement_one_cell_row_skipped
        [OF one, of "[data_row ''Tobacco'' ''Yes'']" "[data_row ''Gambling'' ''No'']" "[]"
        "table_of [header_row, data_row ''Tobacco'' ''Yes'',
           short_row ''Alcohol'', data_row ''Gambling'' ''No'']" header_row]
    by (simp add: one rows cols t)
qed

section \<open>The controversy section\<close>

lemma controversy_page_section:
  "find_testid ''esg-controversy'' (controversy_page a b) =
     Some (sec ''esg-controversy''
       [elem ''div'' [''val'', ''yf-ye6fz0'']
          [elem ''span'' [] [NavigableString a], elem ''span'' [] [NavigableString a]],
        elem ''div'' [''tooltip'', ''al-top'', ''yf-15g2hux'']
          [elem ''span'' [''peer-score'', ''yf-ye6fz0''] [NavigableString b]]])"
  by (simp add: controversy_page_def find_defs input_defs)

text \<open>
  The extraction of lines 46 to 68 on its own. In a document whose controversy
  section has a value element with at least two spans and a tooltip with a
  peer-score span, the controversy score is \<open>float\<close> of the first span's text and
  the category average is \<open>float\<close> of the peer span's text, each \<open>None\<close> when its
  own text does not parse, whatever the other one does. With the texts \<open>3\<close> and
  \<open>2.1\<close> the two values are 3 and 2.1, and they are the two fields of any record
  that \<open>scrape_esg_scores\<close> returns for the document.
\<close>

lemma controversy_two_spans:
  assumes "find_testid ''esg-controversy'' soup = Some controversy_section"
    and "find_class ''div'' ''val yf-ye6fz0'' controversy_section = Some val_div"
    and "find_all_tag ''span'' val_div = s1 # s2 # spans"
    and "find_class ''div'' ''tooltip al-top yf-15g2hux'' controversy_section = Some tooltip_div"
    and "find_class ''span'' ''peer-score yf-ye6fz0'' tooltip_div = Some peer_span"
  shows "controversy flt soup = (flt (strip (get_text s1)), flt (strip (get_text peer_span)))
     \<and> (strip (get_text s1) = ''3'' \<and> strip (get_text peer_span) = ''2.1''
          \<longrightarrow> controversy py_float soup = (Some (Finite 3), Some (Finite (21 / 10)))
            \<and> (\<forall>get t resp r. get (url t) = Inr resp \<and> document resp = soup
                   \<and> scrape_esg_scores py_float get t = Inr (Some r)
                 \<longrightarrow> controversy_score r = Some (Finite 3)
                   \<and> controversy_category_average r = Some (Finite (21 / 10))))"
proof -
  have block: "controversy flt soup = (flt (strip (get_text s1)), flt (strip (get_text peer_span)))"
    using assms
    by (simp add: controversy_def controversy_value_def controversy_peer_def Let_def)
  have py: "controversy py_float soup
      = (py_float (strip (get_text s1)), py_float (strip (get_text peer_span)))"
    using assms
    by (simp add: controversy_def controversy_value_def controversy_peer_def Let_def)
  have "controversy_score r = Some (Finite 3)
          \<and> controversy_category_average r = Some (Finite (21 / 10))"
    if "strip (get_text s1) = ''3''" "strip (get_text peer_span) = ''2.1''"
      "get (url t) = Inr resp" "document resp = soup"
      "scrape_esg_scores py_float get t = Inr (Some r)" for get t resp r
    using scrape_record [OF that(5)] that(1-4) py
    by (auto simp: py_float_3 py_float_2_1)
  then show ?thesis
    using block py by (auto simp: py_float_3 py_float_2_1)
qed

lemma controversy_two_spans_example:
  "controversy py_float (controversy_page ''3'' ''2.1'') = (Some (Finite 3), Some (Finite (21 / 10)))
   \<and> scrape_esg_scores py_float (serve 200 (controversy_page ''3'' ''2.1'')) ''AAPL''
       = Inr (Some \<lparr>total_score = None, total_level = None, environmental = None,
                    social = None, governance = None, involvement_areas = [],
                    controversy_score = Some (Finite 3),
                    controversy_category_average = Some (Finite (21 / 10))\<rparr>)
   \<and> controversy py_float (controversy_page ''N/A'' ''2.1'') = (None, Some (Finite (21 / 10)))
   \<and> controversy py_float (controversy_page ''3'' ''N/A'') = (Some (Finite 3), None)"
proof -
  let ?val = "\<lambda>a. elem ''div'' [''val'', ''yf-ye6fz0'']
          [elem ''span'' [] [NavigableString a], elem ''span'' [] [NavigableString a]]"
  let ?tip = "\<lambda>b. elem ''div'' [''tooltip'', ''al-top'', ''yf-15g2hux'']
          [elem ''span'' [''peer-score'', ''yf-ye6fz0''] [NavigableString b]]"
  let ?sec = "\<lambda>a b. sec ''esg-controversy'' [?val a, ?tip b]"
  have h2: "find_class ''div'' ''val yf-ye6fz0'' (?sec a b) = Some (?val a)" for a b
    by (simp add: find_defs input_defs)
  have h3: "find_all_tag ''span'' (?val a)
      = elem ''span'' [] [NavigableString a] # elem ''span'' [] [NavigableString a] # []" for a
    by (simp add: find_defs input_defs)
  have h4: "find_class ''div'' ''tooltip al-top yf-15g2hux'' (?sec a b) = Some (?tip b)" for a b
    by (simp add: find_defs input_defs)
  have h5: "find_class ''span'' ''peer-score yf-ye6fz0'' (?tip b)
      = Some (elem ''span'' [''peer-score'', ''yf-ye6fz0''] [NavigableString b])" for b
    by (simp add: find_defs input_defs)
  have t: "get_text (elem ''span'' cl [NavigableString a]) = a" for cl a
    by (simp add: elem_def)
  have c: "controversy py_float (controversy_page a b) = (py_float (strip a), py_float (strip b))
     \<and> (strip a = ''3'' \<and> strip b = ''2.1''
          \<longrightarrow> controversy py_float (controversy_page a b) = (Some (Finite 3), Some (Finite (21 / 10))))" for a b
    using controversy_two_spans [where flt = py_float, OF controversy_page_section [of a b]
        h2 [of a b] h3 [of a] h4 [of a b] h5 [of b]]
    unfolding t by blast
  have r: "scrape_esg_scores py_float (serve 200 (controversy_page ''3'' ''2.1'')) ''AAPL''
     = Inr (Some \<lparr>total_score = None, total_level = None, environmental = None,
                    social = None, governance = None, involvement_areas = [],
                    controversy_score = fst (controversy py_float (controversy_page ''3'' ''2.1'')),
                    controversy_category_average = snd (controversy py_float (controversy_page ''3'' ''2.1''))\<rparr>)"
    by (simp add: scrape_esg_scores_def serve_def get_score_def involvement_def find_defs
        controversy_page_def doc_def sec_def elem_def Let_def)
  show ?thesis
    using c [of "''3''" "''2.1''"] c [of "''N/A''" "''2.1''"] c [of "''3''" "''N/A''"] r
    by (simp add: py_float_3 py_float_2_1 py_float_not_a_number)
qed

text \<open>
  Claim C7 at a page with status 200 whose controversy section is the one the claim
  describes (a value element with two spans \<open>3\<close>, a peer-score span \<open>2.1\<close>) and whose
  total-score section is
  \<^verbatim>\<open><section data-testid="TOTAL_ESG_SCORE"><h4>N/A</h4></section>\<close>:
  the controversy extraction of lines 46 to 68 gives 3 and 2.1 for the document, but
  \<open>get_score\<close> runs before it (line 26), its unguarded \<open>float\<close> raises
  \<open>ValueError\<close>, and \<open>scrape_esg_scores\<close> returns neither value.
\<close>

theorem scrape_controversy_page_raises:
  "controversy py_float
     (doc [sec ''TOTAL_ESG_SCORE'' [elem ''h4'' [] [NavigableString ''N/A'']],
           sec ''esg-controversy''
             [elem ''div'' [''val'', ''yf-ye6fz0'']
                [elem ''span'' [] [NavigableString ''3''], elem ''span'' [] [NavigableString ''3'']],
              elem ''div'' [''tooltip'', ''al-top'', ''yf-15g2hux'']
                [elem ''span'' [''peer-score'', ''yf-ye6fz0''] [NavigableString ''2.1'']]]])
     = (Some (Finite 3), Some (Finite (21 / 10)))
   \<and> scrape_esg_scores py_float
       (serve 200
         (doc [sec ''TOTAL_ESG_SCORE'' [elem ''h4'' [] [NavigableString ''N/A'']],
               sec ''esg-controversy''
                 [elem ''div'' [''val'', ''yf-ye6fz0'']
                    [elem ''span'' [] [NavigableString ''3''], elem ''span'' [] [NavigableString ''3'']],
                  elem ''div'' [''tooltip'', ''al-top'', ''yf-15g2hux'']
                    [elem ''span'' [''peer-score'', ''yf-ye6fz0''] [NavigableString ''2.1'']]]]))
       ''AAPL''
     = Inl ValueError"
  by (simp add: scrape_esg_scores_def get_score_def controversy_def controversy_value_def
      controversy_peer_def find_defs input_defs Let_def
      py_float_not_a_number py_float_3 py_float_2_1)

text \<open>
  Claim C9. When the value element of the controversy section has fewer than two
  spans, the controversy score is \<open>None\<close>, for every conversion \<open>flt\<close> and so also
  when the text of the only span parses; this is the value of the field in every
  record returned for the document. The first span is read only under the test
  \<open>len(spans) >= 2\<close>.
\<close>

theorem controversy_fewer_than_two_spans:
  assumes "find_testid ''esg-controversy'' soup = Some controversy_section"
    and "find_class ''div'' ''val yf-ye6fz0'' controversy_section = Some val_div"
    and "length (find_all_tag ''span'' val_div) < 2"
  shows "fst (controversy flt soup) = None
     \<and> (\<forall>get t resp r. get (url t) = Inr resp \<and> document resp = soup
            \<and> scrape_esg_scores flt get t = Inr (Some r) \<longrightarrow> controversy_score r = None)"
proof -
  have block: "fst (controversy flt soup) = None"
    using assms by (simp add: controversy_def controversy_value_def Let_def)
  moreover have "controversy_score r = None"
    if "get (url t) = Inr resp" "document resp = soup"
      "scrape_esg_scores flt get t = Inr (Some r)" for get t resp r
    using scrape_record [OF that(3)] that(1,2) block by auto
  ultimately show ?thesis by blast
qed

theorem controversy_fewer_than_two_spans_witness:
  "py_float ''3'' = Some (Finite 3)
   \<and> fst (controversy py_float (one_span_page ''3'')) = None
   \<and> scrape_esg_scores py_float (serve 200 (one_span_page ''3'')) ''AAPL''
       = Inr (Some \<lparr>total_score = None, total_level = None, environmental = None,
                    social = None, governance = None, involvement_areas = [],
                    controversy_score = None, controversy_category_average = None\<rparr>)"
proof -
  let ?val = "elem ''div'' [''val'', ''yf-ye6fz0''] [elem ''span'' [] [NavigableString ''3'']]"
  have h1: "find_testid ''esg-controversy'' (one_span_page ''3'')
      = Some (sec ''esg-controversy'' [?val])"
    by (simp add: one_span_page_def find_defs input_defs)
  have h2: "find_class ''div'' ''val yf-ye6fz0'' (sec ''esg-controversy'' [?val]) = Some ?val"
    by (simp add: find_defs input_defs)
  have h3: "length (find_all_tag ''span'' ?val) < 2"
    by (simp add: find_defs input_defs)
  have peer: "snd (controversy py_float (one_span_page ''3'')) = None"
    by (simp add: controversy_def controversy_peer_def h1) (simp add: find_defs input_defs)
  have r: "scrape_esg_scores py_float (serve 200 (one_span_page ''3'')) ''AAPL''
     = Inr (Some \<lparr>total_score = None, total_level = None, environmental = None,
                    social = None, governance = None, involvement_areas = [],
                    controversy_score = fst (controversy py_float (one_span_page ''3'')),
                    controversy_category_average = snd (controversy py_float (one_span_page ''3''))\<rparr>)"
    by (simp add: scrape_esg_scores_def serve_def get_score_def involvement_def find_defs
        one_span_page_def doc_def sec_def elem_def Let_def)
  show ?thesis
    using controversy_fewer_than_two_spans [OF h1 h2 h3, of py_float] r peer
    by (simp add: py_float_3)
qed

section \<open>The table of \<open>fetch_data\<close>\<close>

lemma fetch_loop_returns:
  assumes "\<forall>t \<in> set ts. scrape_esg_scores flt get t = Inr (result t)"
  shows "fetch_loop flt get ts results valid_count calls =
    (Inr (results @ map (\<lambda>t. make_row t (the (result t))) [t \<leftarrow> ts. has_total (result t)],
          valid_count + length [t \<leftarrow> ts. has_total (result t)]),
     calls @ ts)"
  using assms
proof (induction ts arbitrary: results valid_count calls)
  case Nil
  then show ?case by simp
next
  case (Cons t ts)
  then have t: "scrape_esg_scores flt get t = Inr (result t)"
    and rest: "\<forall>t \<in> set ts. scrape_esg_scores flt get t = Inr (result t)"
    by simp_all
  show ?case
    by (cases "result t") (simp_all add: t Cons.IH [OF rest] has_total_def)
qed

lemma fetch_loop_calls:
  "fetch_loop flt get ts results valid_count calls = (Inr v, calls') \<Longrightarrow> calls' = calls @ ts"
proof (induction ts arbitrary: results valid_count calls)
  case Nil
  then show ?case by simp
next
  case (Cons t ts)
  from Cons.prems show ?case
    by (auto split: sum.splits option.splits if_splits dest: Cons.IH)
qed

lemma fetch_loop_raises:
  assumes "\<forall>u \<in> set pre. scrape_esg_scores flt get u = Inr (result u)"
    and "scrape_esg_scores flt get t = Inl e"
  shows "fetch_loop flt get (pre @ t # post) results valid_count calls = (Inl e, calls @ pre @ [t])"
  using assms(1)
proof (induction pre arbitrary: results valid_count calls)
  case Nil
  then show ?case by (simp add: assms(2))
next
  case (Cons u pre)
  then have u: "scrape_esg_scores flt get u = Inr (result u)"
    and rest: "\<forall>u \<in> set pre. scrape_esg_scores flt get u = Inr (result u)"
    by simp_all
  show ?case
    by (cases "result u") (simp_all add: u Cons.IH [OF rest])
qed

text \<open>
  Claim C1, as the code has it. Let \<open>result t\<close> be the fetch result of each ticker.
  When every call of \<open>scrape_esg_scores\<close> for the list returns its result (a record
  or \<open>None\<close>), the table has exactly one row for each ticker of the list whose
  result is not \<open>None\<close> and has a total score, in the order of the list and holding
  the fields of that result; every other ticker has no row at all; and the valid
  count is the number of those tickers. When the request of a ticker fails, the
  calls for the tickers before it having returned, the exception of the request
  leaves \<open>fetch_data\<close>, which has no handler around the call (lines 26 to 28), and
  no table is built.
\<close>

theorem fetch_data_table:
  "((\<forall>t \<in> set ticker_list. scrape_esg_scores flt get t = Inr (result t)) \<longrightarrow>
      fst (fetch_data flt get ticker_list) =
        Inr (map (\<lambda>t. make_row t (the (result t))) [t \<leftarrow> ticker_list. has_total (result t)],
             length [t \<leftarrow> ticker_list. has_total (result t)])
      \<and> map Ticker (map (\<lambda>t. make_row t (the (result t)))
            [t \<leftarrow> ticker_list. has_total (result t)])
          = [t \<leftarrow> ticker_list. has_total (result t)])
   \<and> (\<forall>pre t post e. ticker_list = pre @ t # post
          \<and> (\<forall>u \<in> set pre. scrape_esg_scores flt get u = Inr (result u))
          \<and> get (url t) = Inl e
        \<longrightarrow> fst (fetch_data flt get ticker_list) = Inl e)"
proof (intro conjI impI allI)
  assume a: "\<forall>t \<in> set ticker_list. scrape_esg_scores flt get t = Inr (result t)"
  show "fst (fetch_data flt get ticker_list) =
        Inr (map (\<lambda>t. make_row t (the (result t))) [t \<leftarrow> ticker_list. has_total (result t)],
             length [t \<leftarrow> ticker_list. has_total (result t)])"
    using fetch_loop_returns [OF a, of "[]" 0 "[]"] by (simp add: fetch_data_def)
  show "map Ticker (map (\<lambda>t. make_row t (the (result t)))
            [t \<leftarrow> ticker_list. has_total (result t)])
          = [t \<leftarrow> ticker_list. has_total (result t)]"
    by (simp add: make_row_def comp_def)
next
  fix pre t post e
  assume h: "ticker_list = pre @ t # post
          \<and> (\<forall>u \<in> set pre. scrape_esg_scores flt get u = Inr (result u))
          \<and> get (url t) = Inl e"
  then have "scrape_esg_scores flt get t = Inl e"
    by (simp add: scrape_esg_scores_def)
  with h show "fst (fetch_data flt get ticker_list) = Inl e"
    using fetch_loop_raises [of pre flt get result t e post "[]" 0 "[]"]
    by (simp add: fetch_data_def)
qed

theorem fetch_data_table_witness:
  "fst (fetch_data py_float market [''AAPL'', ''ZZZZINVALID'', ''NOSCORE''])
     = Inr ([make_row ''AAPL'' aapl_record], 1)
   \<and> market (url ''DOWN'') = Inl RequestException
   \<and> fst (fetch_data py_float market ([''AAPL''] @ ''DOWN'' # [''NOSCORE''])) = Inl RequestException"
proof -
  let ?result = "\<lambda>t. if t = ''AAPL'' then Some aapl_record
                     else if t = ''NOSCORE'' then Some empty_record else None"
  have h: "\<forall>t \<in> set [''AAPL'', ''ZZZZINVALID'', ''NOSCORE''].
             scrape_esg_scores py_float market t = Inr (?result t)"
    by (simp add: scrape_market)
  have d: "market (url ''DOWN'') = Inl RequestException"
    by (simp add: market_def url_def)
  have p: "\<forall>u \<in> set [''AAPL'']. scrape_esg_scores py_float market u = Inr (?result u)"
    by (simp add: scrape_market)
  have first: "fst (fetch_data py_float market [''AAPL'', ''ZZZZINVALID'', ''NOSCORE''])
     = Inr ([make_row ''AAPL'' aapl_record], 1)"
    using fetch_data_table [of "[''AAPL'', ''ZZZZINVALID'', ''NOSCORE'']" py_float market ?result] h
    by (simp add: has_total_def aapl_record_def empty_record_def)
  have second: "fst (fetch_data py_float market ([''AAPL''] @ ''DOWN'' # [''NOSCORE'']))
     = Inl RequestException"
    using fetch_data_table [of "[''AAPL''] @ ''DOWN'' # [''NOSCORE'']" py_float market ?result] p d
    by blast
  show ?thesis
    using first second d by simp
qed

text \<open>
  Claim C1 as stated fails for the list \<open>AAPL\<close>, \<open>DOWN\<close>: the fetch result of
  \<open>AAPL\<close> is a record with a total score, but the request for \<open>DOWN\<close> fails, its
  exception leaves \<open>fetch_data\<close>, and there is neither a table with the row of
  \<open>AAPL\<close> nor a valid count.
\<close>

theorem fetch_data_failed_request_no_table:
  "scrape_esg_scores py_float market ''AAPL'' = Inr (Some aapl_record)
   \<and> has_total (Some aapl_record)
   \<and> fst (fetch_data py_float market [''AAPL'', ''DOWN'']) = Inl RequestException"
  by (simp add: fetch_data_def scrape_market has_total_def aapl_record_def)

section \<open>Memoization\<close>

lemma count_list_distinct:
  "distinct ts \<Longrightarrow> t \<in> set ts \<Longrightarrow> count_list ts t = 1"
  by (induction ts) auto

lemma cached_fetch_data_returned:
  assumes "cached_fetch_data flt get ticker_list st = (Inr v, st')"
  shows "cached_fetch_data flt get ticker_list st' = (Inr v, st')
    \<and> (map_of (cache st) ticker_list = None \<longrightarrow> scraped st' = scraped st @ ticker_list)"
proof (cases "map_of (cache st) ticker_list")
  case (Some w)
  with assms show ?thesis by (simp add: cached_fetch_data_def)
next
  case None
  obtain out calls where f: "fetch_data flt get ticker_list = (out, calls)"
    by (cases "fetch_data flt get ticker_list")
  with assms None have out: "out = Inr v"
    and st': "st' = \<lparr>cache = (ticker_list, v) # cache st, scraped = scraped st @ calls\<rparr>"
    by (auto simp: cached_fetch_data_def split: sum.splits)
  from f out have "calls = ticker_list"
    using fetch_loop_calls [of flt get ticker_list "[]" 0 "[]" v calls]
    by (simp add: fetch_data_def)
  with st' None show ?thesis
    by (simp add: cached_fetch_data_def)
qed

lemma cached_fetch_data_raised:
  assumes "cached_fetch_data flt get ticker_list st = (Inl e, st')"
  shows "map_of (cache st') ticker_list = None \<and> cache st' = cache st"
proof (cases "map_of (cache st) ticker_list")
  case (Some w)
  with assms show ?thesis by (simp add: cached_fetch_data_def)
next
  case None
  obtain out calls where f: "fetch_data flt get ticker_list = (out, calls)"
    by (cases "fetch_data flt get ticker_list")
  show ?thesis
  proof (cases out)
    case (Inl e')
    with assms None f have "st' = st\<lparr>scraped := scraped st @ calls\<rparr>"
      by (simp add: cached_fetch_data_def)
    with None show ?thesis by simp
  next
    case (Inr w)
    with assms None f show ?thesis
      by (simp add: cached_fetch_data_def)
  qed
qed

lemma fetch_data_down:
  "fetch_data py_float market [''AAPL'', ''DOWN''] = (Inl RequestException, [''AAPL'', ''DOWN''])"
  by (simp add: fetch_data_def scrape_market aapl_record_def)

text \<open>
  Claim C8, as the code has it. When a call of the memoized \<open>fetch_data\<close> returns a
  result, a second call with the same ticker list returns the same result and leaves
  the session as it is: it is answered from the cache and scrapes nothing. If the
  list had no entry before the first call, that call scrapes exactly the elements of
  the list, in order, one extraction for each; for a list without duplicates that is
  one extraction for each ticker. When a call raises, the list still has no entry
  afterwards, so the next call runs the extraction again.
\<close>

theorem cached_fetch_data_twice:
  "(\<forall>v st'. cached_fetch_data flt get ticker_list st = (Inr v, st') \<longrightarrow>
       cached_fetch_data flt get ticker_list st' = (Inr v, st')
       \<and> (map_of (cache st) ticker_list = None \<longrightarrow>
            scraped st' = scraped st @ ticker_list
            \<and> (distinct ticker_list \<longrightarrow>
                 (\<forall>t \<in> set ticker_list.
                     count_list (scraped st') t = count_list (scraped st) t + 1))))
   \<and> (\<forall>e st'. cached_fetch_data flt get ticker_list st = (Inl e, st') \<longrightarrow>
        map_of (cache st') ticker_list = None \<and> cache st' = cache st)"
proof (intro conjI allI impI ballI)
  fix v st'
  assume r: "cached_fetch_data flt get ticker_list st = (Inr v, st')"
  show "cached_fetch_data flt get ticker_list st' = (Inr v, st')"
    using cached_fetch_data_returned [OF r] by blast
  assume n: "map_of (cache st) ticker_list = None"
  show s: "scraped st' = scraped st @ ticker_list"
    using cached_fetch_data_returned [OF r] n by blast
  fix t
  assume "distinct ticker_list" "t \<in> set ticker_list"
  then show "count_list (scraped st') t = count_list (scraped st) t + 1"
    by (simp add: s count_list_distinct)
next
  fix e st'
  assume r: "cached_fetch_data flt get ticker_list st = (Inl e, st')"
  show "map_of (cache st') ticker_list = None"
    using cached_fetch_data_raised [OF r] by blast
  show "cache st' = cache st"
    using cached_fetch_data_raised [OF r] by blast
qed

theorem cached_fetch_data_twice_witness:
  "cached_fetch_data py_float market [''AAPL'', ''ZZZZINVALID''] \<lparr>cache = [], scraped = []\<rparr>
     = (Inr ([make_row ''AAPL'' aapl_record], 1),
        \<lparr>cache = [([''AAPL'', ''ZZZZINVALID''], ([make_row ''AAPL'' aapl_record], 1))],
         scraped = [''AAPL'', ''ZZZZINVALID'']\<rparr>)
   \<and> distinct [''AAPL'', ''ZZZZINVALID'']
   \<and> cached_fetch_data py_float market [''AAPL'', ''ZZZZINVALID'']
        \<lparr>cache = [([''AAPL'', ''ZZZZINVALID''], ([make_row ''AAPL'' aapl_record], 1))],
         scraped = [''AAPL'', ''ZZZZINVALID'']\<rparr>
     = (Inr ([make_row ''AAPL'' aapl_record], 1),
        \<lparr>cache = [([''AAPL'', ''ZZZZINVALID''], ([make_row ''AAPL'' aapl_record], 1))],
         scraped = [''AAPL'', ''ZZZZINVALID'']\<rparr>)
   \<and> count_list [''AAPL'', ''ZZZZINVALID''] ''AAPL'' = 1
   \<and> cached_fetch_data py_float market [''DOWN''] \<lparr>cache = [], scraped = []\<rparr>
     = (Inl RequestException, \<lparr>cache = [], scraped = [''DOWN'']\<rparr>)
   \<and> map_of (cache (\<lparr>cache = [], scraped = [''DOWN'']\<rparr> :: pyfloat session)) [''DOWN''] = None"
proof -
  let ?ts = "[''AAPL'', ''ZZZZINVALID'']"
  let ?v = "([make_row ''AAPL'' aapl_record], 1::nat)"
  let ?st = "\<lparr>cache = [], scraped = []\<rparr> :: pyfloat session"
  let ?st' = "\<lparr>cache = [(?ts, ?v)], scraped = ?ts\<rparr>"
  have f: "fetch_data py_float market ?ts = (Inr ?v, ?ts)"
    by (simp add: fetch_data_def scrape_market aapl_record_def)
  have first: "cached_fetch_data py_float market ?ts ?st = (Inr ?v, ?st')"
    by (simp add: cached_fetch_data_def f)
  have fd: "fetch_data py_float market [''DOWN''] = (Inl RequestException, [''DOWN''])"
    by (simp add: fetch_data_def scrape_market)
  have down: "cached_fetch_data py_float market [''DOWN''] ?st
     = (Inl RequestException, \<lparr>cache = [], scraped = [''DOWN'']\<rparr>)"
    by (simp add: cached_fetch_data_def fd)
  have n: "map_of (cache ?st) ?ts = None" by simp
  have d: "distinct ?ts" by simp
  have m: "''AAPL'' \<in> set ?ts" by simp
  note c = cached_fetch_data_twice [of py_float market ?ts ?st]
  have second: "cached_fetch_data py_float market ?ts ?st' = (Inr ?v, ?st')"
    using c first by blast
  have "count_list (scraped ?st') ''AAPL'' = count_list (scraped ?st) ''AAPL'' + 1"
    using c first n d m by blast
  then have once: "count_list ?ts ''AAPL'' = 1" by simp
  have raised: "map_of (cache (\<lparr>cache = [], scraped = [''DOWN'']\<rparr> :: pyfloat session)) [''DOWN'']
      = None"
    using cached_fetch_data_twice [of py_float market "[''DOWN'']" ?st] down by blast
  show ?thesis
    using first second once down d raised by simp
qed

text \<open>
  Claim C8 as stated fails for the list \<open>AAPL\<close>, \<open>DOWN\<close>: the request for \<open>DOWN\<close>
  fails, so the first call raises and stores nothing; the second call with the same
  list raises again instead of returning a result, and it runs the extraction again,
  \<open>AAPL\<close> being scraped twice.
\<close>

theorem cached_fetch_data_raising_call_repeats:
  "cached_fetch_data py_float market [''AAPL'', ''DOWN''] \<lparr>cache = [], scraped = []\<rparr>
     = (Inl RequestException, \<lparr>cache = [], scraped = [''AAPL'', ''DOWN'']\<rparr>)
   \<and> cached_fetch_data py_float market [''AAPL'', ''DOWN'']
        \<lparr>cache = [], scraped = [''AAPL'', ''DOWN'']\<rparr>
     = (Inl RequestException, \<lparr>cache = [], scraped = [''AAPL'', ''DOWN'', ''AAPL'', ''DOWN'']\<rparr>)"
  by (simp add: cached_fetch_data_def fetch_data_down)

section \<open>The ticker list\<close>

lemma upper_char_not_lower: "\<not> islower (upper_char c)"
  by (auto simp: islower_def upper_char_def)

lemma upper_char_idem: "upper_char (upper_char c) = upper_char c"
  using upper_char_not_lower [of c] by (simp add: upper_char_def [of "upper_char c"])

lemma upper_idem: "upper (upper s) = upper s"
  by (simp add: upper_def upper_char_idem)

lemma upper_no_lower: "c \<in> set (upper s) \<Longrightarrow> \<not> islower c"
  by (auto simp: upper_def upper_char_not_lower)

lemma distinct_unique: "distinct (unique xs)"
  by (simp add: unique_def)

lemma set_unique: "set (unique xs) = set xs"
  by (simp add: unique_def)

lemma tickers_cases:
  "tickers uploaded_file single_ticker = [upper single_ticker] \<and> single_ticker \<noteq> []
   \<or> tickers uploaded_file single_ticker = [] \<and> single_ticker = []
   \<or> (\<exists>columns col. uploaded_file = Some (DataFrame columns)
         \<and> map_of columns ''Ticker'' = Some col \<and> single_ticker = []
         \<and> tickers uploaded_file single_ticker = unique (map upper (dropna col)))"
  by (auto simp: tickers_def split: option.splits csv.splits)

text \<open>
  Claim C6. Whatever the input, the list handed to \<open>fetch_data\<close> has no ticker
  twice, and each of its tickers is in upper case: \<open>upper\<close> leaves it unchanged and
  it holds no lower-case letter. With a text entry the list is the upper-cased entry;
  otherwise its tickers are the upper-cased cells of the \<open>Ticker\<close> column of the
  uploaded file.
\<close>

theorem fetch_argument_upper_distinct:
  assumes "fetch_argument uploaded_file single_ticker = Some ts"
  shows "distinct ts
    \<and> (\<forall>t \<in> set ts. upper t = t \<and> (\<forall>c \<in> set t. \<not> islower c))
    \<and> (single_ticker \<noteq> [] \<longrightarrow> ts = [upper single_ticker])
    \<and> (single_ticker = [] \<longrightarrow>
         (\<exists>columns col. uploaded_file = Some (DataFrame columns)
            \<and> map_of columns ''Ticker'' = Some col
            \<and> set ts = upper ` set (dropna col)))"
proof -
  from assms have ts: "ts = tickers uploaded_file single_ticker" and ne: "ts \<noteq> []"
    by (auto simp: fetch_argument_def Let_def split: if_splits)
  from tickers_cases [of uploaded_file single_ticker] show ?thesis
  proof (elim disjE conjE exE)
    assume "tickers uploaded_file single_ticker = [upper single_ticker]" "single_ticker \<noteq> []"
    with ts show ?thesis by (auto simp: upper_idem dest: upper_no_lower)
  next
    assume "tickers uploaded_file single_ticker = []"
    with ts ne show ?thesis by simp
  next
    fix columns col
    assume f: "uploaded_file = Some (DataFrame columns)" "map_of columns ''Ticker'' = Some col"
      "single_ticker = []"
      and u: "tickers uploaded_file single_ticker = unique (map upper (dropna col))"
    from ts u have s: "set ts = upper ` set (dropna col)" and d: "distinct ts"
      by (simp_all add: set_unique distinct_unique)
    from s have "\<forall>t \<in> set ts. upper t = t \<and> (\<forall>c \<in> set t. \<not> islower c)"
      by (auto simp: upper_idem dest: upper_no_lower)
    with f s d show ?thesis by auto
  qed
qed

theorem fetch_argument_upper_distinct_witness:
  "fetch_argument
      (Some (DataFrame [(''Name'', [Some ''Apple'', Some ''x'', Some ''Apple'', Some ''Microsoft'']),
                        (''Ticker'', [Some ''aapl'', None, Some ''AAPL'', Some ''msft''])])) []
     = Some [''AAPL'', ''MSFT'']
   \<and> distinct [''AAPL'', ''MSFT'']
   \<and> upper ''AAPL'' = ''AAPL'' \<and> upper ''MSFT'' = ''MSFT''
   \<and> fetch_argument None ''Tsla'' = Some [''TSLA'']"
proof -
  have a: "fetch_argument
      (Some (DataFrame [(''Name'', [Some ''Apple'', Some ''x'', Some ''Apple'', Some ''Microsoft'']),
                        (''Ticker'', [Some ''aapl'', None, Some ''AAPL'', Some ''msft''])])) []
     = Some [''AAPL'', ''MSFT'']"
    by code_simp
  have b: "fetch_argument None ''Tsla'' = Some [''TSLA'']"
    by code_simp
  show ?thesis
    using fetch_argument_upper_distinct [OF a] fetch_argument_upper_distinct [OF b] a b
    by simp
qed

end
